theory Spec2Isabelle
  imports Main
begin

section \<open>Debugging utilities of \<^verbatim>\<open>prefect.utilities.debug\<close>\<close>

text \<open>
  The module has three functions: \<^verbatim>\<open>is_serializable\<close>, which pickles a value into a
  temporary file and unpickles it in a fresh interpreter; \<^verbatim>\<open>raise_on_exception\<close>, a
  context manager that sets a flag of \<^verbatim>\<open>prefect.context\<close>; and
  \<^verbatim>\<open>make_return_failed_handler\<close>, which builds a state handler that records failed
  and retrying tasks in a set.

  All three act on their surroundings (the filesystem, the interpreter's objects, a shared
  set, the context), so each is modelled with explicit state passing, and every
  \<^verbatim>\<open>raise\<close> is a value.
\<close>

subsection \<open>Exceptions and control flow\<close>

text \<open>
  The exceptions the module can meet. \<^verbatim>\<open>CalledProcessError\<close> has the fields Python gives
  it (return code, command, captured output). \<open>OSError\<close> stands for the I/O errors of the
  operating system and \<open>Exception\<close> for every other subclass of Python's \<^verbatim>\<open>Exception\<close>
  (class name, message). \<open>BaseException\<close> stands for the classes that do not derive from
  \<^verbatim>\<open>Exception\<close> (\<^verbatim>\<open>KeyboardInterrupt\<close>, \<^verbatim>\<open>SystemExit\<close>), again with class name and
  message: an \<^verbatim>\<open>except Exception\<close> clause lets them pass.
\<close>

datatype exn =
    CalledProcessError int string string
  | OSError string
  | Exception string string
  | BaseException string string

fun is_Exception :: "exn \<Rightarrow> bool" where
  "is_Exception (BaseException _ _) = False"
| "is_Exception _ = True"

fun is_CalledProcessError :: "exn \<Rightarrow> bool" where
  "is_CalledProcessError (CalledProcessError _ _ _) = True"
| "is_CalledProcessError _ = False"

text \<open>
  The text an exception offers for inspection: the \<^verbatim>\<open>output\<close> attribute of a
  \<^verbatim>\<open>CalledProcessError\<close>, the message of any other exception.
\<close>

fun diagnostic_text :: "exn \<Rightarrow> string" where
  "diagnostic_text (CalledProcessError returncode cmd output) = output"
| "diagnostic_text (OSError msg) = msg"
| "diagnostic_text (Exception cls msg) = msg"
| "diagnostic_text (BaseException cls msg) = msg"

text \<open>
  How a block of statements ends: it runs off its end, it executes \<^verbatim>\<open>return v\<close>, or it
  raises.
\<close>

datatype 'a outcome = Fallthrough | Return 'a | Raise exn

subsection \<open>The world of \<^verbatim>\<open>is_serializable\<close>\<close>

type_synonym path = string
type_synonym bytes = string
type_synonym addr = nat

text \<open>
  The state the function acts on: the files that exist (with their contents), the file
  descriptors the process holds open, and the interpreter's objects. The value under test
  is an object, given by its address; \<open>'v\<close> is whatever an object holds. There is one
  thread, and no process but the caller and the child it starts.
\<close>

record 'v world =
  files :: "path \<rightharpoonup> bytes"
  open_fds :: "nat list"
  heap :: "addr \<Rightarrow> 'v"

text \<open>
  What the code calls but does not define is a parameter of the model:
  \<^item> \<open>tmp_name\<close>: the name on which \<^verbatim>\<open>tempfile.mkstemp\<close> attempts its exclusive
    create, or the error it raises (no usable directory, no descriptor left, disk full);
  \<^item> \<open>open_error\<close>: whether the builtin \<^verbatim>\<open>open\<close> raises on a path;
  \<^item> \<open>cloudpickle_dump\<close>: the encoder, run over the files and the objects: the bytes it
    wrote, the exception it raised if any, the objects afterwards and the files afterwards.
    Pickling calls the value's own reduction hooks, which are arbitrary code: they can
    change objects and they can remove files;
  \<^item> \<open>sf_write\<close>: \<open>None\<close> when the whole text reaches the file, \<open>Some (n, e)\<close> when
    only its first \<open>n\<close> characters do and \<open>e\<close> is raised;
  \<^item> \<open>run_shell\<close>: the shell running a command line over the current files: an error
    when the process cannot be started or waited for, else its exit code and its combined
    standard output and standard error; and the files afterwards. The child runs whatever
    the payload makes it run when it is loaded, so it too can remove files. It is another
    process: it has no access to the caller's objects.
\<close>

record 'v platform =
  tmp_name :: "(path \<rightharpoonup> bytes) \<Rightarrow> exn + path"
  open_error :: "(path \<rightharpoonup> bytes) \<Rightarrow> path \<Rightarrow> exn option"
  cloudpickle_dump ::
    "(path \<rightharpoonup> bytes) \<Rightarrow> (addr \<Rightarrow> 'v) \<Rightarrow> addr \<Rightarrow>
     (bytes \<times> exn option) \<times> (addr \<Rightarrow> 'v) \<times> (path \<rightharpoonup> bytes)"
  sf_write :: "(path \<rightharpoonup> bytes) \<Rightarrow> path \<Rightarrow> string \<Rightarrow> (nat \<times> exn) option"
  run_shell ::
    "(path \<rightharpoonup> bytes) \<Rightarrow> string \<Rightarrow> (exn + (int \<times> string)) \<times> (path \<rightharpoonup> bytes)"

text \<open>A descriptor that is not open. Which number the system hands out is immaterial.\<close>

definition new_fd :: "nat list \<Rightarrow> nat" where
  "new_fd fds = Suc (fold max fds 2)"

text \<open>
  \<^verbatim>\<open>tempfile.mkstemp()\<close> creates the file with \<^verbatim>\<open>O_CREAT | O_EXCL\<close>: a name that exists
  is refused, a name that does not becomes an empty file, open on a new descriptor. It
  returns the descriptor and the path.
\<close>

definition mkstemp :: "'v platform \<Rightarrow> 'v world \<Rightarrow> exn + ((nat \<times> path) \<times> 'v world)" where
  "mkstemp pf w =
     (case tmp_name pf (files w) of
        Inl e \<Rightarrow> Inl e
      | Inr p \<Rightarrow>
          if files w p \<noteq> None then Inl (OSError ''FileExistsError'')
          else
            let fd = new_fd (open_fds w)
            in Inr ((fd, p), w\<lparr>files := (files w)(p \<mapsto> []), open_fds := fd # open_fds w\<rparr>))"

definition os_close :: "nat \<Rightarrow> 'v world \<Rightarrow> exn + 'v world" where
  "os_close fd w =
     (if fd \<in> set (open_fds w) then Inr (w\<lparr>open_fds := removeAll fd (open_fds w)\<rparr>)
      else Inl (OSError ''EBADF''))"

text \<open>\<^verbatim>\<open>os.unlink\<close> raises \<^verbatim>\<open>FileNotFoundError\<close> on a path that does not exist.\<close>

definition os_unlink :: "path \<Rightarrow> 'v world \<Rightarrow> exn + 'v world" where
  "os_unlink p w =
     (if files w p = None then Inl (OSError ''FileNotFoundError'')
      else Inr (w\<lparr>files := (files w)(p := None)\<rparr>))"

text \<open>
  Lines 41 to 44: the two temporary files are allocated and their descriptors closed,
  before the \<^verbatim>\<open>try\<close> statement is entered. An exception here leaves the function at
  once, with the world as it is at that point.
\<close>

definition allocate :: "'v platform \<Rightarrow> 'v world \<Rightarrow> (exn + (path \<times> path)) \<times> 'v world" where
  "allocate pf w =
     (case mkstemp pf w of
        Inl e \<Rightarrow> (Inl e, w)
      | Inr ((bd, binary_file), w1) \<Rightarrow>
     (case mkstemp pf w1 of
        Inl e \<Rightarrow> (Inl e, w1)
      | Inr ((sd, script_file), w2) \<Rightarrow>
     (case os_close bd w2 of
        Inl e \<Rightarrow> (Inl e, w2)
      | Inr w3 \<Rightarrow>
     (case os_close sd w3 of
        Inl e \<Rightarrow> (Inl e, w3)
      | Inr w4 \<Rightarrow> (Inr (binary_file, script_file), w4)))))"

text \<open>
  Lines 46 and 47: \<^verbatim>\<open>with open(binary_file, "wb") as bf: cloudpickle.dump(obj, bf)\<close>.
  Opening truncates the file, and the encoder runs over the files as they are then. What
  it wrote before it returned or raised is the file's content when the \<^verbatim>\<open>with\<close>
  statement closes it, unless a hook of the value removed the path meanwhile: writing to
  the open file does not bring the path back.
\<close>

definition dump_payload ::
  "'v platform \<Rightarrow> addr \<Rightarrow> path \<Rightarrow> 'v world \<Rightarrow> exn option \<times> 'v world" where
  "dump_payload pf obj binary_file w =
     (case open_error pf (files w) binary_file of
        Some e \<Rightarrow> (Some e, w)
      | None \<Rightarrow>
          let ((written, err), h, fs) =
                cloudpickle_dump pf ((files w)(binary_file \<mapsto> [])) (heap w) obj
          in (err,
              w\<lparr>files := (if fs binary_file = None then fs else fs(binary_file \<mapsto> written)),
                heap := h\<rparr>))"

text \<open>
  The dedented template, with the payload's path in place of its \<^verbatim>\<open>{}\<close>:
  \<^verbatim>\<open>str.format\<close> inserts the path as it is.
\<close>

definition newline :: char where
  "newline = CHR 0x0A"

definition apostrophe :: char where
  "apostrophe = CHR 0x27"

definition template_format :: "path \<Rightarrow> string" where
  "template_format binary_file =
     [newline] @ ''import cloudpickle'' @ [newline] @ [newline]
     @ ''with open('' @ [apostrophe] @ binary_file @ [apostrophe] @ '', ''
     @ [apostrophe] @ ''rb'' @ [apostrophe] @ '') as z76123:'' @ [newline]
     @ ''    res = cloudpickle.load(z76123)'' @ [newline]"

text \<open>
  Lines 48 and 49: \<^verbatim>\<open>with open(script_file, "w") as sf: sf.write(...)\<close>. Opening for
  writing creates the file if it is not there.
\<close>

definition write_script ::
  "'v platform \<Rightarrow> path \<Rightarrow> path \<Rightarrow> 'v world \<Rightarrow> exn option \<times> 'v world" where
  "write_script pf script_file binary_file w =
     (case open_error pf (files w) script_file of
        Some e \<Rightarrow> (Some e, w)
      | None \<Rightarrow>
          let text = template_format binary_file
          in (case sf_write pf ((files w)(script_file \<mapsto> [])) script_file text of
                None \<Rightarrow> (None, w\<lparr>files := (files w)(script_file \<mapsto> text)\<rparr>)
              | Some (n, e) \<Rightarrow> (Some e, w\<lparr>files := (files w)(script_file \<mapsto> take n text)\<rparr>)))"

text \<open>
  \<^verbatim>\<open>subprocess.check_output(cmd, shell=True, stderr=subprocess.STDOUT)\<close>: the output of
  a process that exits with code zero is returned; any other exit code raises
  \<^verbatim>\<open>CalledProcessError\<close> with the code, the command and the output. Either way the files
  are as the child left them.
\<close>

definition check_output ::
  "'v platform \<Rightarrow> string \<Rightarrow> 'v world \<Rightarrow> (exn + string) \<times> 'v world" where
  "check_output pf cmd w =
     (let (r, fs) = run_shell pf (files w) cmd;
          w' = w\<lparr>files := fs\<rparr>
      in (case r of
            Inl e \<Rightarrow> (Inl e, w')
          | Inr (returncode, output) \<Rightarrow>
              if returncode = 0 then (Inr output, w')
              else (Inl (CalledProcessError returncode cmd output), w')))"

text \<open>Lines 50 to 57: the inner \<^verbatim>\<open>try\<close> statement.\<close>

definition inner_try ::
  "'v platform \<Rightarrow> bool \<Rightarrow> path \<Rightarrow> 'v world \<Rightarrow> bool outcome \<times> 'v world" where
  "inner_try pf raise_on_error script_file w =
     (case check_output pf (''python '' @ script_file) w of
        (Inr _, w') \<Rightarrow> (Fallthrough, w')
      | (Inl exc, w') \<Rightarrow>
          if is_CalledProcessError exc
          then (if raise_on_error then (Raise exc, w') else (Return False, w'))
          else (Raise exc, w'))"

text \<open>Lines 46 to 57: the body of the outer \<^verbatim>\<open>try\<close> statement.\<close>

definition try_block ::
  "'v platform \<Rightarrow> addr \<Rightarrow> bool \<Rightarrow> path \<Rightarrow> path \<Rightarrow> 'v world \<Rightarrow> bool outcome \<times> 'v world" where
  "try_block pf obj raise_on_error binary_file script_file w =
     (case dump_payload pf obj binary_file w of
        (Some e, w1) \<Rightarrow> (Raise e, w1)
      | (None, w1) \<Rightarrow>
     (case write_script pf script_file binary_file w1 of
        (Some e, w2) \<Rightarrow> (Raise e, w2)
      | (None, w2) \<Rightarrow> inner_try pf raise_on_error script_file w2))"

text \<open>Lines 58 to 61: \<^verbatim>\<open>except Exception as exc\<close>.\<close>

definition except_Exception :: "bool \<Rightarrow> bool outcome \<Rightarrow> bool outcome" where
  "except_Exception raise_on_error oc =
     (case oc of
        Raise exc \<Rightarrow>
          if is_Exception exc
          then (if raise_on_error then Raise exc else Return False)
          else Raise exc
      | _ \<Rightarrow> oc)"

text \<open>
  Lines 62 to 64: the \<^verbatim>\<open>finally\<close> clause. Nothing guards the two calls: an exception
  of the first \<^verbatim>\<open>os.unlink\<close> skips the second, and an exception of either leaves the
  function.
\<close>

definition finally_block :: "path \<Rightarrow> path \<Rightarrow> 'v world \<Rightarrow> exn option \<times> 'v world" where
  "finally_block binary_file script_file w =
     (case os_unlink binary_file w of
        Inl e \<Rightarrow> (Some e, w)
      | Inr w1 \<Rightarrow>
     (case os_unlink script_file w1 of
        Inl e \<Rightarrow> (Some e, w1)
      | Inr w2 \<Rightarrow> (None, w2)))"

text \<open>
  What the caller gets when the \<^verbatim>\<open>try\<close> statement ends in a given way: running off
  its end reaches the \<^verbatim>\<open>return True\<close> of line 65.
\<close>

fun result_of :: "bool outcome \<Rightarrow> exn + bool" where
  "result_of Fallthrough = Inr True"
| "result_of (Return b) = Inr b"
| "result_of (Raise e) = Inl e"

text \<open>
  Lines 45 to 65: the \<^verbatim>\<open>try\<close> statement and the \<^verbatim>\<open>return True\<close> after it. An
  exception of the \<^verbatim>\<open>finally\<close> clause replaces whatever was pending, a return value as
  well as an exception.
\<close>

definition guarded ::
  "'v platform \<Rightarrow> addr \<Rightarrow> bool \<Rightarrow> path \<Rightarrow> path \<Rightarrow> 'v world \<Rightarrow> (exn + bool) \<times> 'v world" where
  "guarded pf obj raise_on_error binary_file script_file w =
     (let (oc, w1) = try_block pf obj raise_on_error binary_file script_file w;
          oc' = except_Exception raise_on_error oc;
          (fin, w2) = finally_block binary_file script_file w1
      in (case fin of
            Some e \<Rightarrow> (Inl e, w2)
          | None \<Rightarrow> (result_of oc', w2)))"

definition is_serializable ::
  "'v platform \<Rightarrow> addr \<Rightarrow> bool \<Rightarrow> 'v world \<Rightarrow> (exn + bool) \<times> 'v world" where
  "is_serializable pf obj raise_on_error w =
     (case allocate pf w of
        (Inl e, w') \<Rightarrow> (Inl e, w')
      | (Inr (binary_file, script_file), w') \<Rightarrow>
          guarded pf obj raise_on_error binary_file script_file w')"

text \<open>
  The verification process of a call, when the call gets as far as running one: the paths
  of the payload and of the script, the world when the process has finished (the one the
  \<^verbatim>\<open>finally\<close> clause runs in), the exit code and the combined output. \<open>None\<close> when an
  earlier step raised or the process could not be run. The flag \<^verbatim>\<open>raise_on_error\<close>
  plays no part before the process has finished.
\<close>

definition spawned ::
  "'v platform \<Rightarrow> addr \<Rightarrow> 'v world \<Rightarrow> (path \<times> path \<times> 'v world \<times> int \<times> string) option" where
  "spawned pf obj w =
     (case allocate pf w of
        (Inl e, _) \<Rightarrow> None
      | (Inr (binary_file, script_file), w1) \<Rightarrow>
     (case dump_payload pf obj binary_file w1 of
        (Some e, _) \<Rightarrow> None
      | (None, w2) \<Rightarrow>
     (case write_script pf script_file binary_file w2 of
        (Some e, _) \<Rightarrow> None
      | (None, w3) \<Rightarrow>
     (case run_shell pf (files w3) (''python '' @ script_file) of
        (Inl e, _) \<Rightarrow> None
      | (Inr (returncode, output), fs) \<Rightarrow>
          Some (binary_file, script_file, w3\<lparr>files := fs\<rparr>, returncode, output)))))"

subsection \<open>Example platforms\<close>

text \<open>
  A process with the three standard descriptors open, an empty temporary directory and
  objects that all hold 42.
\<close>

definition example_world :: "nat world" where
  "example_world = \<lparr>files = Map.empty, open_fds = [0, 1, 2], heap = (\<lambda>_. 42)\<rparr>"

text \<open>
  A platform on which nothing fails: \<^verbatim>\<open>mkstemp\<close> offers \<^verbatim>\<open>/tmp/tmpa\<close>, then
  \<^verbatim>\<open>/tmp/tmpb\<close>; the encoder writes a payload and leaves the objects and the files alone;
  the child exits with code zero when it is asked to run the script that loads that
  payload, and with a traceback otherwise, and leaves the files alone.
\<close>

definition healthy_platform :: "nat platform" where
  "healthy_platform =
     \<lparr>tmp_name = (\<lambda>fs. if fs ''/tmp/tmpa'' = None then Inr ''/tmp/tmpa'' else Inr ''/tmp/tmpb''),
      open_error = (\<lambda>fs p. None),
      cloudpickle_dump = (\<lambda>fs h a. ((''payload'', None), h, fs)),
      sf_write = (\<lambda>fs p t. None),
      run_shell = (\<lambda>fs cmd.
        (if cmd = ''python /tmp/tmpb''
            \<and> fs ''/tmp/tmpb'' = Some (template_format ''/tmp/tmpa'')
            \<and> fs ''/tmp/tmpa'' = Some ''payload''
         then Inr (0, [])
         else Inr (1, ''ModuleNotFoundError''), fs))\<rparr>"

text \<open>The payload does not load in the child: it prints a traceback and exits with 1.\<close>

definition failing_child_platform :: "nat platform" where
  "failing_child_platform =
     healthy_platform\<lparr>run_shell := (\<lambda>fs cmd. (Inr (1, ''_pickle.UnpicklingError''), fs))\<rparr>"

text \<open>
  The payload ends the child at once when it is loaded (its reduction calls
  \<^verbatim>\<open>os._exit(3)\<close>): the exit code is 3 and nothing was printed.
\<close>

definition silent_child_platform :: "nat platform" where
  "silent_child_platform = healthy_platform\<lparr>run_shell := (\<lambda>fs cmd. (Inr (3, []), fs))\<rparr>"

text \<open>
  The payload, when it is loaded, removes the script that loads it (it finds the path in
  \<^verbatim>\<open>sys.argv\<close>) and loads well: the child exits with code zero, and the script is gone.
\<close>

definition script_removing_platform :: "nat platform" where
  "script_removing_platform =
     healthy_platform\<lparr>run_shell := (\<lambda>fs cmd. (Inr (0, []), fs(''/tmp/tmpb'' := None)))\<rparr>"

text \<open>
  The payload, when it is loaded, removes the file it is read from and then fails: the
  child prints a traceback and exits with 1, and the payload file is gone.
\<close>

definition payload_removing_platform :: "nat platform" where
  "payload_removing_platform =
     healthy_platform\<lparr>run_shell :=
       (\<lambda>fs cmd. (Inr (1, ''_pickle.UnpicklingError''), fs(''/tmp/tmpa'' := None)))\<rparr>"

text \<open>The encoder refuses the value.\<close>

definition failing_encoder_platform :: "nat platform" where
  "failing_encoder_platform =
     healthy_platform\<lparr>cloudpickle_dump :=
       (\<lambda>fs h a. (([], Some (Exception ''TypeError'' ''cannot pickle socket object'')), h, fs))\<rparr>"

text \<open>
  The value's own reduction hook calls \<^verbatim>\<open>sys.exit(1)\<close>: the encoder raises
  \<^verbatim>\<open>SystemExit\<close>.
\<close>

definition exiting_value_platform :: "nat platform" where
  "exiting_value_platform =
     healthy_platform\<lparr>cloudpickle_dump :=
       (\<lambda>fs h a. (([], Some (BaseException ''SystemExit'' ''1'')), h, fs))\<rparr>"

text \<open>
  The value counts how often it is pickled: its \<^verbatim>\<open>__getstate__\<close> adds one to a field of
  the value each time the encoder asks for its state.
\<close>

definition counting_value_platform :: "nat platform" where
  "counting_value_platform =
     healthy_platform\<lparr>cloudpickle_dump :=
       (\<lambda>fs h a. ((''payload'', None), h(a := Suc (h a)), fs))\<rparr>"

text \<open>There is no usable temporary directory: every \<^verbatim>\<open>mkstemp\<close> fails.\<close>

definition no_tmpdir_platform :: "nat platform" where
  "no_tmpdir_platform = healthy_platform\<lparr>tmp_name := (\<lambda>fs. Inl (OSError ''ENOENT''))\<rparr>"

text \<open>
  The process is one descriptor short of its limit: the first \<^verbatim>\<open>mkstemp\<close> takes the last
  one and the second fails with \<^verbatim>\<open>EMFILE\<close>.
\<close>

definition last_descriptor_platform :: "nat platform" where
  "last_descriptor_platform =
     healthy_platform\<lparr>tmp_name :=
       (\<lambda>fs. if fs ''/tmp/tmpa'' = None then Inr ''/tmp/tmpa'' else Inl (OSError ''EMFILE''))\<rparr>"

subsection \<open>The handler of \<^verbatim>\<open>make_return_failed_handler\<close>\<close>

text \<open>
  The state classes of \<^verbatim>\<open>prefect.engine.state\<close> are not part of the module. The two the
  handler names are tags, and \<open>isinstance\<close>, which decides whether a state is an instance
  of a class (or of one of its subclasses), is a parameter.
\<close>

datatype state_class = Failed | Retrying

record 't task_runner =
  task :: 't

text \<open>
  Sets are mutable objects: the store gives the elements of each. The handler closes
  over the reference \<open>failed_tasks_set\<close> it was made with.
\<close>

type_synonym ref = nat

definition make_return_failed_handler ::
  "('s \<Rightarrow> state_class \<Rightarrow> bool) \<Rightarrow> ref \<Rightarrow>
   't task_runner \<Rightarrow> 's \<Rightarrow> 's \<Rightarrow> (ref \<Rightarrow> 't set) \<Rightarrow> 's \<times> (ref \<Rightarrow> 't set)" where
  "make_return_failed_handler isinstance failed_tasks_set =
     (\<lambda>task_runner old_state new_state store.
        if isinstance new_state Failed \<or> isinstance new_state Retrying
        then (new_state,
              store(failed_tasks_set := insert (task task_runner) (store failed_tasks_set)))
        else (new_state, store))"

text \<open>
  A runner calling a handler once for each transition \<open>(old_state, new_state)\<close> of its
  task, in order; the store afterwards.
\<close>

fun call_for_each ::
  "('t task_runner \<Rightarrow> 's \<Rightarrow> 's \<Rightarrow> (ref \<Rightarrow> 't set) \<Rightarrow> 's \<times> (ref \<Rightarrow> 't set)) \<Rightarrow>
   't task_runner \<Rightarrow> ('s \<times> 's) list \<Rightarrow> (ref \<Rightarrow> 't set) \<Rightarrow> (ref \<Rightarrow> 't set)" where
  "call_for_each handler task_runner [] store = store"
| "call_for_each handler task_runner ((old_state, new_state) # transitions) store =
     call_for_each handler task_runner transitions
       (snd (handler task_runner old_state new_state store))"

text \<open>An example: states are class names, and each is an instance of its own class only.\<close>

fun example_isinstance :: "string \<Rightarrow> state_class \<Rightarrow> bool" where
  "example_isinstance s Failed = (s = ''Failed'')"
| "example_isinstance s Retrying = (s = ''Retrying'')"

subsection \<open>The context manager \<^verbatim>\<open>raise_on_exception\<close>\<close>

datatype pyval = PyNone | PyBool bool | PyInt int | PyStr string

type_synonym flags = "string \<rightharpoonup> pyval"

text \<open>
  Modelled from the spec: \<^verbatim>\<open>prefect.context\<close>, called with keyword arguments, is the
  context manager of \<^verbatim>\<open>prefect.utilities.context\<close>, which is not part of the module. The
  spec describes it as a boolean context set for the duration of a \<^verbatim>\<open>with\<close>-style scope,
  readable inside it, "scoped strictly to the active block and restored on exit". So: the
  block runs in the context updated with the keyword arguments, and when the block is
  left, by its end or by an exception, the context is the one from before.
\<close>

definition prefect_context ::
  "(string \<times> pyval) list \<Rightarrow> (flags \<Rightarrow> (exn + 'a) \<times> flags) \<Rightarrow> flags \<Rightarrow>
   (exn + 'a) \<times> flags" where
  "prefect_context kwargs block ctx =
     (let previous = ctx;
          (r, ctx') = block (ctx ++ map_of kwargs)
      in (r, previous))"

text \<open>
  Lines 90 and 91: the generator yields inside \<^verbatim>\<open>with prefect.context(...)\<close>, so the block
  of the caller's \<^verbatim>\<open>with raise_on_exception():\<close> runs there, and an exception of the block
  is thrown into the generator at the \<^verbatim>\<open>yield\<close> and leaves through the same \<^verbatim>\<open>with\<close>.
\<close>

definition raise_on_exception ::
  "(flags \<Rightarrow> (exn + 'a) \<times> flags) \<Rightarrow> flags \<Rightarrow> (exn + 'a) \<times> flags" where
  "raise_on_exception block ctx =
     prefect_context [(''raise_on_exception'', PyBool True)] block ctx"

text \<open>What the engine does at a decision point: it reads the flag.\<close>

definition read_flag :: "flags \<Rightarrow> (exn + pyval option) \<times> flags" where
  "read_flag ctx = (Inr (ctx ''raise_on_exception''), ctx)"

section \<open>Properties\<close>

subsection \<open>Allocation of the temporary files\<close>

text \<open>
  The descriptor \<open>new_fd\<close> hands out is above every open one.
\<close>

lemma fold_max_ge: "k \<le> fold max fds (k::nat)"
  by (induction fds arbitrary: k) (auto intro: order_trans [OF max.cobounded2])

lemma fold_max_upper: "x \<in> set fds \<Longrightarrow> x \<le> fold max fds (k::nat)"
proof (induction fds arbitrary: k)
  case Nil
  then show ?case by simp
next
  case (Cons a fds)
  show ?case
  proof (cases "x = a")
    case True
    have "a \<le> max a k" by simp
    also have "\<dots> \<le> fold max fds (max a k)" by (rule fold_max_ge)
    finally show ?thesis using True by simp
  next
    case False
    with Cons show ?thesis by simp
  qed
qed

lemma new_fd_fresh: "new_fd fds \<notin> set fds"
proof
  assume "new_fd fds \<in> set fds"
  then have "new_fd fds \<le> fold max fds 2" by (rule fold_max_upper)
  then show False by (simp add: new_fd_def)
qed

text \<open>
  A successful \<^verbatim>\<open>mkstemp\<close> creates a file that did not exist, and touches nothing
  else.
\<close>

lemma mkstemp_Inr:
  assumes "mkstemp pf w = Inr ((fd, p), w1)"
  shows "files w p = None" and "files w1 = (files w)(p \<mapsto> [])"
    and "fd \<notin> set (open_fds w)" and "open_fds w1 = fd # open_fds w"
    and "heap w1 = heap w"
  using assms new_fd_fresh [of "open_fds w"]
  by (auto simp: mkstemp_def Let_def split: sum.splits if_splits)

text \<open>
  When both allocations succeed, the two paths differ, both files are new and empty, the
  descriptors are closed again and the objects are as before. The second path differs
  from the first because the first file exists when the second name is tried.
\<close>

lemma allocate_Inr:
  assumes "allocate pf w = (Inr (b, s), w1)"
  shows "b \<noteq> s" and "files w b = None" and "files w s = None"
    and "files w1 = (files w)(b \<mapsto> [], s \<mapsto> [])"
    and "open_fds w1 = open_fds w" and "heap w1 = heap w"
proof -
  from assms obtain bd wa sd wb wc where
    m1: "mkstemp pf w = Inr ((bd, b), wa)" and
    m2: "mkstemp pf wa = Inr ((sd, s), wb)" and
    c1: "os_close bd wb = Inr wc" and
    c2: "os_close sd wc = Inr w1"
    by (auto simp: allocate_def split: sum.splits prod.splits)
  note f1 = mkstemp_Inr [OF m1] and f2 = mkstemp_Inr [OF m2]
  show "b \<noteq> s" using f1(2) f2(1) by auto
  show "files w b = None" by (rule f1(1))
  show "files w s = None" using f1(2) f2(1) by (auto split: if_splits)
  have wc: "wc = wb\<lparr>open_fds := removeAll bd (open_fds wb)\<rparr>"
    using c1 by (auto simp: os_close_def split: if_splits)
  have w1: "w1 = wc\<lparr>open_fds := removeAll sd (open_fds wc)\<rparr>"
    using c2 by (auto simp: os_close_def split: if_splits)
  show "files w1 = (files w)(b \<mapsto> [], s \<mapsto> [])"
    using f1(2) f2(2) by (simp add: wc w1)
  show "heap w1 = heap w" using f1(5) f2(5) by (simp add: wc w1)
  have "sd \<noteq> bd" using f1(4) f2(3) by auto
  then show "open_fds w1 = open_fds w"
    using f1(3,4) f2(3,4) by (simp add: wc w1)
qed

text \<open>
  Closing the two descriptors cannot fail, so an allocation fails only in one of the two
  \<^verbatim>\<open>mkstemp\<close> calls; in the second case the first file is already there.
\<close>

lemma allocate_Inl:
  assumes "allocate pf w = (Inl e, w')"
  shows "(mkstemp pf w = Inl e \<and> w' = w) \<or>
         (\<exists>bd b. mkstemp pf w = Inr ((bd, b), w') \<and> mkstemp pf w' = Inl e)"
proof (cases "mkstemp pf w")
  case (Inl e1)
  with assms show ?thesis by (simp add: allocate_def)
next
  case (Inr r)
  then obtain bd b wa where m1: "mkstemp pf w = Inr ((bd, b), wa)"
    by (cases r) auto
  show ?thesis
  proof (cases "mkstemp pf wa")
    case (Inl e2)
    with assms m1 show ?thesis by (simp add: allocate_def)
  next
    case (Inr r2)
    then obtain sd s wb where m2: "mkstemp pf wa = Inr ((sd, s), wb)"
      by (cases r2) auto
    note f1 = mkstemp_Inr [OF m1] and f2 = mkstemp_Inr [OF m2]
    have "bd \<in> set (open_fds wb)" "sd \<in> set (open_fds wb)" "sd \<noteq> bd"
      using f1(4) f2(3,4) by auto
    then have False using assms m1 m2
      by (simp add: allocate_def os_close_def)
    then show ?thesis ..
  qed
qed

subsection \<open>The try statement and its finally clause\<close>

text \<open>
  The \<^verbatim>\<open>finally\<close> clause removes both files when both are there, and raises
  \<^verbatim>\<open>FileNotFoundError\<close> when one of them is not.
\<close>

lemma finally_block_removes:
  assumes "files w b \<noteq> None" and "files w s \<noteq> None" and "b \<noteq> s"
  shows "finally_block b s w = (None, w\<lparr>files := (files w)(b := None, s := None)\<rparr>)"
  using assms by (simp add: finally_block_def os_unlink_def)

lemma finally_block_fails:
  assumes "files w b = None \<or> files w s = None"
  shows "fst (finally_block b s w) = Some (OSError ''FileNotFoundError'')"
  using assms by (auto simp: finally_block_def os_unlink_def)

lemma finally_block_None:
  assumes "fst (finally_block b s w) = None"
  shows "files w b \<noteq> None \<and> files w s \<noteq> None"
proof (rule ccontr)
  assume "\<not> (files w b \<noteq> None \<and> files w s \<noteq> None)"
  then have "files w b = None \<or> files w s = None" by simp
  then have "fst (finally_block b s w) = Some (OSError ''FileNotFoundError'')"
    by (rule finally_block_fails)
  with assms show False by simp
qed

lemma guarded_eq:
  assumes "try_block pf obj r b s w = (oc, w1)"
    and "files w1 b \<noteq> None" and "files w1 s \<noteq> None" and "b \<noteq> s"
  shows "guarded pf obj r b s w =
           (result_of (except_Exception r oc), w1\<lparr>files := (files w1)(b := None, s := None)\<rparr>)"
  using assms(1) finally_block_removes [OF assms(2,3,4)] by (simp add: guarded_def)

lemma guarded_unlink_fails:
  assumes "try_block pf obj r b s w = (oc, w1)"
    and "files w1 b = None \<or> files w1 s = None"
  shows "fst (guarded pf obj r b s w) = Inl (OSError ''FileNotFoundError'')"
proof -
  obtain fin w2 where f: "finally_block b s w1 = (fin, w2)" by (cases "finally_block b s w1")
  with finally_block_fails [OF assms(2)] have "fin = Some (OSError ''FileNotFoundError'')" by simp
  with assms(1) f show ?thesis by (simp add: guarded_def)
qed

text \<open>
  The whole call, once both files are allocated. When both files are still there at the
  end of the \<^verbatim>\<open>try\<close> block, the result is decided by that block and its handler, and both files
  are removed. When one of them is gone, the call raises \<^verbatim>\<open>FileNotFoundError\<close>, whatever
  the block did and whatever the flag is.
\<close>

lemma is_serializable_allocated:
  assumes "allocate pf w = (Inr (b, s), w1)" and "try_block pf obj r b s w1 = (oc, w2)"
    and "files w2 b \<noteq> None" and "files w2 s \<noteq> None"
  shows "is_serializable pf obj r w =
           (result_of (except_Exception r oc), w2\<lparr>files := (files w2)(b := None, s := None)\<rparr>)"
proof -
  have "b \<noteq> s" by (rule allocate_Inr(1) [OF assms(1)])
  with assms(2,3,4) have "guarded pf obj r b s w1 =
      (result_of (except_Exception r oc), w2\<lparr>files := (files w2)(b := None, s := None)\<rparr>)"
    by (rule guarded_eq)
  then show ?thesis using assms(1) by (simp add: is_serializable_def)
qed

lemma is_serializable_unlink_fails:
  assumes "allocate pf w = (Inr (b, s), w1)" and "try_block pf obj r b s w1 = (oc, w2)"
    and "files w2 b = None \<or> files w2 s = None"
  shows "fst (is_serializable pf obj r w) = Inl (OSError ''FileNotFoundError'')"
  using assms(1) guarded_unlink_fails [OF assms(2,3)] by (simp add: is_serializable_def)

lemma is_serializable_returns:
  assumes "allocate pf w = (Inr (b, s), w1)" and "try_block pf obj r b s w1 = (oc, w2)"
    and "fst (is_serializable pf obj r w) = Inr v"
  shows "files w2 b \<noteq> None \<and> files w2 s \<noteq> None \<and> result_of (except_Exception r oc) = Inr v"
proof (cases "files w2 b = None \<or> files w2 s = None")
  case True
  from is_serializable_unlink_fails [OF assms(1,2) True] assms(3) show ?thesis by simp
next
  case False
  then have p: "files w2 b \<noteq> None" "files w2 s \<noteq> None" by simp_all
  from is_serializable_allocated [OF assms(1,2) p] assms(3) p show ?thesis by simp
qed

lemma temporary_files_removed:
  assumes "allocate pf w = (Inr (b, s), w1)" and "try_block pf obj r b s w1 = (oc, w2)"
    and "files w2 b \<noteq> None" and "files w2 s \<noteq> None"
  shows "files (snd (is_serializable pf obj r w)) b = None"
    and "files (snd (is_serializable pf obj r w)) s = None"
  using allocate_Inr(1) [OF assms(1)]
  by (simp_all add: is_serializable_allocated [OF assms])

text \<open>
  The flag changes what a failure becomes, not whether there is one, and not the world.
\<close>

lemma inner_try_world: "snd (inner_try pf r s w) = snd (check_output pf (''python '' @ s) w)"
  by (simp add: inner_try_def split: prod.splits sum.splits)

lemma try_block_world: "snd (try_block pf obj r b s w) = snd (try_block pf obj r' b s w)"
  by (simp add: try_block_def inner_try_world split: prod.splits option.splits)

lemma CalledProcessError_is_Exception: "is_CalledProcessError e \<Longrightarrow> is_Exception e"
  by (cases e) simp_all


lemma try_block_flag_Return:
  assumes "fst (try_block pf obj False b s w1) = Return v"
  shows "\<exists>e. is_CalledProcessError e \<and> fst (try_block pf obj True b s w1) = Raise e"
  using assms
  by (auto simp: try_block_def inner_try_def split: prod.splits option.splits sum.splits if_splits)

lemma try_block_flag_Raise:
  assumes "fst (try_block pf obj False b s w1) = Raise e"
  shows "fst (try_block pf obj True b s w1) = Raise e"
  using assms
  by (auto simp: try_block_def inner_try_def split: prod.splits option.splits sum.splits if_splits)

subsection \<open>The verification process\<close>

lemma spawned_Some:
  assumes "spawned pf obj w = Some (b, s, w4, rc, out)"
  obtains w1 w2 w3 fs where "allocate pf w = (Inr (b, s), w1)"
    and "dump_payload pf obj b w1 = (None, w2)"
    and "write_script pf s b w2 = (None, w3)"
    and "run_shell pf (files w3) (''python '' @ s) = (Inr (rc, out), fs)"
    and "w4 = w3\<lparr>files := fs\<rparr>"
  using assms
  by (auto simp: spawned_def split: prod.splits sum.splits option.splits)

lemma try_block_spawned:
  assumes "dump_payload pf obj b w1 = (None, w2)"
    and "write_script pf s b w2 = (None, w3)"
    and "run_shell pf (files w3) (''python '' @ s) = (Inr (rc, out), fs)"
  shows "try_block pf obj r b s w1 =
           (if rc = 0 then Fallthrough
            else if r then Raise (CalledProcessError rc (''python '' @ s) out)
            else Return False, w3\<lparr>files := fs\<rparr>)"
  using assms by (simp add: try_block_def inner_try_def check_output_def)

lemma try_block_of_spawned:
  assumes "spawned pf obj w = Some (b, s, w4, rc, out)"
  obtains w1 where "allocate pf w = (Inr (b, s), w1)"
    and "try_block pf obj r b s w1 =
           (if rc = 0 then Fallthrough
            else if r then Raise (CalledProcessError rc (''python '' @ s) out)
            else Return False, w4)"
proof -
  from assms obtain w1 w2 w3 fs where a: "allocate pf w = (Inr (b, s), w1)"
    and d: "dump_payload pf obj b w1 = (None, w2)"
    and ws: "write_script pf s b w2 = (None, w3)"
    and rs: "run_shell pf (files w3) (''python '' @ s) = (Inr (rc, out), fs)"
    and w4: "w4 = w3\<lparr>files := fs\<rparr>"
    by (rule spawned_Some)
  from try_block_spawned [OF d ws rs, of r] w4 a that show ?thesis by simp
qed

lemma is_serializable_spawned:
  assumes "spawned pf obj w = Some (b, s, w4, rc, out)"
    and "files w4 b \<noteq> None" and "files w4 s \<noteq> None"
  shows "fst (is_serializable pf obj r w) =
           (if rc = 0 then Inr True
            else if r then Inl (CalledProcessError rc (''python '' @ s) out)
            else Inr False)"
proof -
  from assms(1) obtain w1 where a: "allocate pf w = (Inr (b, s), w1)"
    and t: "try_block pf obj r b s w1 =
           (if rc = 0 then Fallthrough
            else if r then Raise (CalledProcessError rc (''python '' @ s) out)
            else Return False, w4)"
    by (rule try_block_of_spawned)
  show ?thesis
    by (simp add: is_serializable_allocated [OF a t assms(2,3)] except_Exception_def)
qed




subsection \<open>The objects\<close>

text \<open>
  Only the encoder touches the objects: after a call they are those from before it, or
  those the encoder left.
\<close>

lemma try_block_heap:
  "heap (snd (try_block pf obj r b s w)) = heap w
   \<or> heap (snd (try_block pf obj r b s w))
       = fst (snd (cloudpickle_dump pf ((files w)(b \<mapsto> [])) (heap w) obj))"
  by (auto simp: try_block_def dump_payload_def write_script_def inner_try_def check_output_def
      Let_def split: prod.splits option.splits sum.splits if_splits)

lemma finally_block_heap: "heap (snd (finally_block b s w)) = heap w"
  by (auto simp: finally_block_def os_unlink_def split: sum.splits)

lemma guarded_heap:
  "heap (snd (guarded pf obj r b s w)) = heap (snd (try_block pf obj r b s w))"
proof -
  obtain oc w1 where t: "try_block pf obj r b s w = (oc, w1)"
    by (cases "try_block pf obj r b s w")
  obtain fin w2 where f: "finally_block b s w1 = (fin, w2)" by (cases "finally_block b s w1")
  have "heap w2 = heap w1" using finally_block_heap [of b s w1] f by simp
  then show ?thesis using t f by (simp add: guarded_def split: option.splits)
qed

lemma is_serializable_heap:
  "heap (snd (is_serializable pf obj r w)) = heap w
   \<or> (\<exists>fs. heap (snd (is_serializable pf obj r w))
            = fst (snd (cloudpickle_dump pf fs (heap w) obj)))"
proof -
  obtain ra w1 where a0: "allocate pf w = (ra, w1)" by (cases "allocate pf w")
  show ?thesis
  proof (cases ra)
    case (Inl e)
    then have "heap w1 = heap w"
      using allocate_Inl [of pf w e w1] a0 mkstemp_Inr(5) [of pf w _ _ w1] by auto
    with Inl a0 show ?thesis by (simp add: is_serializable_def)
  next
    case (Inr bs)
    then obtain b s where a: "allocate pf w = (Inr (b, s), w1)" using a0 by (cases bs) simp
    have h: "heap w1 = heap w" by (rule allocate_Inr(6) [OF a])
    have e: "heap (snd (is_serializable pf obj r w)) = heap (snd (try_block pf obj r b s w1))"
      using a by (simp add: is_serializable_def guarded_heap)
    from try_block_heap [of pf obj r b s w1] show ?thesis
    proof
      assume "heap (snd (try_block pf obj r b s w1)) = heap w1"
      with e h show ?thesis by simp
    next
      assume "heap (snd (try_block pf obj r b s w1))
          = fst (snd (cloudpickle_dump pf ((files w1)(b \<mapsto> [])) (heap w1) obj))"
      with e h have "heap (snd (is_serializable pf obj r w))
          = fst (snd (cloudpickle_dump pf ((files w1)(b \<mapsto> [])) (heap w) obj))" by simp
      then show ?thesis by blast
    qed
  qed
qed

subsection \<open>Unfolding the examples\<close>

lemmas platform_defs = healthy_platform_def failing_child_platform_def silent_child_platform_def
  script_removing_platform_def payload_removing_platform_def failing_encoder_platform_def
  exiting_value_platform_def counting_value_platform_def no_tmpdir_platform_def
  last_descriptor_platform_def

lemmas step_defs = is_serializable_def allocate_def mkstemp_def os_close_def os_unlink_def
  new_fd_def guarded_def try_block_def dump_payload_def write_script_def inner_try_def
  check_output_def except_Exception_def finally_block_def

subsection \<open>The result and the exit code of the child\<close>




subsection \<open>Removal of the temporary files\<close>

text \<open>
  Claim C2. Both temporary files are to be deleted on every exit path. The call below
  shows a path on which they are not: the second \<^verbatim>\<open>mkstemp\<close> of line 42 raises
  (\<^verbatim>\<open>EMFILE\<close>, no descriptor left), which is before the \<^verbatim>\<open>try\<close> statement of line 45,
  so the \<^verbatim>\<open>finally\<close> clause does not run. The error leaves the function, and the payload
  file, which did not exist before the call, exists after it. (Once both files are
  allocated, they are removed when the \<^verbatim>\<open>finally\<close> clause finds both:
  \<open>temporary_files_removed\<close>.)
\<close>

theorem payload_file_left_behind:
  "fst (is_serializable last_descriptor_platform 0 False example_world) = Inl (OSError ''EMFILE'')
   \<and> files example_world ''/tmp/tmpa'' = None
   \<and> files (snd (is_serializable last_descriptor_platform 0 False example_world)) ''/tmp/tmpa''
       = Some []"
  by (simp add: step_defs platform_defs example_world_def)

text \<open>
  Claim C10. When the second \<^verbatim>\<open>mkstemp\<close> raises, \<^verbatim>\<open>is_serializable\<close> raises that
  exception, whatever \<^verbatim>\<open>raise_on_error\<close> is, and the world it leaves is the one after the
  first \<^verbatim>\<open>mkstemp\<close>: the payload file, created by this call, is still there.
\<close>

theorem second_mkstemp_failure:
  assumes "mkstemp pf w = Inr ((bd, binary_file), w1)" and "mkstemp pf w1 = Inl e"
  shows "is_serializable pf obj raise_on_error w = (Inl e, w1)
         \<and> files w binary_file = None \<and> files w1 binary_file = Some []"
  using assms mkstemp_Inr(1,2) [OF assms(1)]
  by (simp add: is_serializable_def allocate_def)

text \<open>
  The same on the platform that is one descriptor short of its limit.
\<close>

theorem second_mkstemp_failure_witness:
  "mkstemp last_descriptor_platform example_world =
     Inr ((3, ''/tmp/tmpa''), example_world\<lparr>files := [''/tmp/tmpa'' \<mapsto> []], open_fds := [3, 0, 1, 2]\<rparr>)
   \<and> mkstemp last_descriptor_platform
        (example_world\<lparr>files := [''/tmp/tmpa'' \<mapsto> []], open_fds := [3, 0, 1, 2]\<rparr>)
       = Inl (OSError ''EMFILE'')
   \<and> is_serializable last_descriptor_platform 7 True example_world =
       (Inl (OSError ''EMFILE''),
        example_world\<lparr>files := [''/tmp/tmpa'' \<mapsto> []], open_fds := [3, 0, 1, 2]\<rparr>)
   \<and> files (example_world\<lparr>files := [''/tmp/tmpa'' \<mapsto> []], open_fds := [3, 0, 1, 2]\<rparr>)
        ''/tmp/tmpa'' = Some []"
proof -
  let ?w1 = "example_world\<lparr>files := [''/tmp/tmpa'' \<mapsto> []], open_fds := [3, 0, 1, 2]\<rparr>"
  have m1: "mkstemp last_descriptor_platform example_world = Inr ((3, ''/tmp/tmpa''), ?w1)"
    by (simp add: mkstemp_def new_fd_def last_descriptor_platform_def healthy_platform_def
        example_world_def)
  have m2: "mkstemp last_descriptor_platform ?w1 = Inl (OSError ''EMFILE'')"
    by (simp add: mkstemp_def last_descriptor_platform_def healthy_platform_def)
  show ?thesis
    using second_mkstemp_failure [OF m1 m2, of 7 True] m1 m2 by simp
qed

subsection \<open>Failures without the flag\<close>




subsection \<open>Failures with the flag\<close>

text \<open>
  With \<^verbatim>\<open>raise_on_error\<close> true, the error of a failing value can have an empty text: a
  payload that ends the child with exit code 3 before anything is printed gives a
  \<^verbatim>\<open>CalledProcessError\<close> whose output is empty.
\<close>

theorem empty_diagnostic_text:
  "fst (is_serializable silent_child_platform 0 True example_world)
     = Inl (CalledProcessError 3 ''python /tmp/tmpb'' [])
   \<and> diagnostic_text (CalledProcessError 3 ''python /tmp/tmpb'' []) = []"
  by (simp add: step_defs platform_defs example_world_def)

text \<open>
  A value for which the call without the flag returns \<^verbatim>\<open>False\<close>: with the flag, the call
  raises what the \<^verbatim>\<open>try\<close> block raised, and that is an \<^verbatim>\<open>Exception\<close>.
\<close>

lemma failing_value_raises:
  assumes f: "fst (is_serializable pf obj False w) = Inr False"
    and a: "allocate pf w = (Inr (b, s), w1)"
  shows "\<exists>oc w2. try_block pf obj True b s w1 = (oc, w2)
           \<and> fst (is_serializable pf obj True w) = result_of (except_Exception True oc)
           \<and> (\<exists>e. oc = Raise e \<and> is_Exception e)"
proof -
  obtain ocf w2 where tf: "try_block pf obj False b s w1 = (ocf, w2)"
    by (cases "try_block pf obj False b s w1")
  obtain oc w2' where tt: "try_block pf obj True b s w1 = (oc, w2')"
    by (cases "try_block pf obj True b s w1")
  have "w2' = w2" using try_block_world [of pf obj True b s w1 False] tf tt by simp
  with tt have tt: "try_block pf obj True b s w1 = (oc, w2)" by simp
  from is_serializable_returns [OF a tf f]
  have p: "files w2 b \<noteq> None" "files w2 s \<noteq> None"
    and c: "result_of (except_Exception False ocf) = Inr False" by simp_all
  have r: "fst (is_serializable pf obj True w) = result_of (except_Exception True oc)"
    by (simp add: is_serializable_allocated [OF a tt p])
  have "\<exists>e. oc = Raise e \<and> is_Exception e"
  proof (cases ocf)
    case Fallthrough
    with c show ?thesis by (simp add: except_Exception_def)
  next
    case (Return v)
    with tf have "fst (try_block pf obj False b s w1) = Return v" by simp
    then obtain e where "is_CalledProcessError e" "fst (try_block pf obj True b s w1) = Raise e"
      using try_block_flag_Return by blast
    with tt show ?thesis using CalledProcessError_is_Exception [of e] by simp
  next
    case (Raise e)
    with tf have "fst (try_block pf obj False b s w1) = Raise e" by simp
    then have "fst (try_block pf obj True b s w1) = Raise e" by (rule try_block_flag_Raise)
    moreover have "is_Exception e"
      using c unfolding Raise by (cases "is_Exception e") (simp_all add: except_Exception_def)
    ultimately show ?thesis using tt by simp
  qed
  with tt r show ?thesis by blast
qed

text \<open>
  Claim C4, amended. For every value on which the call without the flag returns
  \<^verbatim>\<open>False\<close>, the call with \<^verbatim>\<open>raise_on_error\<close> true raises an \<^verbatim>\<open>Exception\<close>; what it
  raises is the very exception the \<^verbatim>\<open>try\<close> block raised; and when the child exited with
  a non-zero code it is the \<^verbatim>\<open>CalledProcessError\<close> with that code, the command and, as its
  output, exactly the child's combined output (whatever the child printed, be it nothing).
\<close>

theorem raises_original_error:
  "fst (is_serializable pf obj False w) = Inr False \<longrightarrow>
     (\<exists>e. is_Exception e \<and> fst (is_serializable pf obj True w) = Inl e)
     \<and> (\<forall>b s w1 e. allocate pf w = (Inr (b, s), w1)
            \<and> fst (try_block pf obj True b s w1) = Raise e \<longrightarrow>
          fst (is_serializable pf obj True w) = Inl e)
     \<and> (\<forall>b s w4 rc out. spawned pf obj w = Some (b, s, w4, rc, out) \<and> rc \<noteq> 0 \<longrightarrow>
          fst (is_serializable pf obj True w)
            = Inl (CalledProcessError rc (''python '' @ s) out)
          \<and> diagnostic_text (CalledProcessError rc (''python '' @ s) out) = out)"
proof (intro impI conjI allI)
  assume f: "fst (is_serializable pf obj False w) = Inr False"
  obtain ra w1 where a0: "allocate pf w = (ra, w1)" by (cases "allocate pf w")
  show "\<exists>e. is_Exception e \<and> fst (is_serializable pf obj True w) = Inl e"
  proof (cases ra)
    case (Inl e)
    with a0 f show ?thesis by (simp add: is_serializable_def)
  next
    case (Inr bs)
    then obtain b s where a: "allocate pf w = (Inr (b, s), w1)" using a0 by (cases bs) simp
    from failing_value_raises [OF f a] show ?thesis
      by (auto simp: except_Exception_def)
  qed
next
  fix b s w1 e
  assume f: "fst (is_serializable pf obj False w) = Inr False"
    and h: "allocate pf w = (Inr (b, s), w1) \<and> fst (try_block pf obj True b s w1) = Raise e"
  from failing_value_raises [OF f conjunct1 [OF h]] h
  show "fst (is_serializable pf obj True w) = Inl e"
    by (auto simp: except_Exception_def)
next
  fix b s w4 rc out
  assume f: "fst (is_serializable pf obj False w) = Inr False"
    and h: "spawned pf obj w = Some (b, s, w4, rc, out) \<and> rc \<noteq> 0"
  from h obtain w1 where a: "allocate pf w = (Inr (b, s), w1)"
    and t: "try_block pf obj True b s w1 =
           (if rc = 0 then Fallthrough
            else if True then Raise (CalledProcessError rc (''python '' @ s) out)
            else Return False, w4)"
    using try_block_of_spawned [of pf obj w b s w4 rc out True] by blast
  from failing_value_raises [OF f a] t h
  show "fst (is_serializable pf obj True w) = Inl (CalledProcessError rc (''python '' @ s) out)"
    by (auto simp: except_Exception_def)
next
  fix s :: path and rc out
  show "diagnostic_text (CalledProcessError rc (''python '' @ s) out) = out" by simp
qed

text \<open>
  A child that prints the name of its decoding error: the error raised carries it.
\<close>

theorem raises_original_error_witness:
  "fst (is_serializable failing_child_platform 0 False example_world) = Inr False
   \<and> allocate failing_child_platform example_world =
       (Inr (''/tmp/tmpa'', ''/tmp/tmpb''),
        example_world\<lparr>files := [''/tmp/tmpa'' \<mapsto> [], ''/tmp/tmpb'' \<mapsto> []]\<rparr>)
   \<and> fst (try_block failing_child_platform 0 True ''/tmp/tmpa'' ''/tmp/tmpb''
            (example_world\<lparr>files := [''/tmp/tmpa'' \<mapsto> [], ''/tmp/tmpb'' \<mapsto> []]\<rparr>))
       = Raise (CalledProcessError 1 ''python /tmp/tmpb'' ''_pickle.UnpicklingError'')
   \<and> spawned failing_child_platform 0 example_world =
       Some (''/tmp/tmpa'', ''/tmp/tmpb'',
             example_world\<lparr>files := [''/tmp/tmpa'' \<mapsto> ''payload'',
                                      ''/tmp/tmpb'' \<mapsto> template_format ''/tmp/tmpa'']\<rparr>,
             1, ''_pickle.UnpicklingError'')
   \<and> fst (is_serializable failing_child_platform 0 True example_world)
       = Inl (CalledProcessError 1 ''python /tmp/tmpb'' ''_pickle.UnpicklingError'')"
proof -
  let ?w1 = "example_world\<lparr>files := [''/tmp/tmpa'' \<mapsto> [], ''/tmp/tmpb'' \<mapsto> []]\<rparr>"
  let ?w4 = "example_world\<lparr>files := [''/tmp/tmpa'' \<mapsto> ''payload'',
                                      ''/tmp/tmpb'' \<mapsto> template_format ''/tmp/tmpa'']\<rparr>"
  have a: "allocate failing_child_platform example_world =
      (Inr (''/tmp/tmpa'', ''/tmp/tmpb''), ?w1)"
    by (simp add: allocate_def mkstemp_def os_close_def new_fd_def failing_child_platform_def
        healthy_platform_def example_world_def)
  have t: "fst (try_block failing_child_platform 0 True ''/tmp/tmpa'' ''/tmp/tmpb'' ?w1)
      = Raise (CalledProcessError 1 ''python /tmp/tmpb'' ''_pickle.UnpicklingError'')"
    by (simp add: try_block_def dump_payload_def write_script_def inner_try_def
        check_output_def failing_child_platform_def healthy_platform_def)
  have s: "spawned failing_child_platform 0 example_world =
      Some (''/tmp/tmpa'', ''/tmp/tmpb'', ?w4, 1, ''_pickle.UnpicklingError'')"
    by (simp add: spawned_def allocate_def mkstemp_def os_close_def new_fd_def dump_payload_def
        write_script_def failing_child_platform_def healthy_platform_def example_world_def)
  have f: "fst (is_serializable failing_child_platform 0 False example_world) = Inr False"
    by (simp add: is_serializable_spawned [OF s])
  show ?thesis
    using raises_original_error [of failing_child_platform 0 example_world] a t s f by simp
qed

subsection \<open>The value under test\<close>

text \<open>
  A value that counts how often it is pickled is changed by the call: it holds 42 before
  and 43 after, and the call returns \<^verbatim>\<open>True\<close>.
\<close>

theorem value_changed_by_encoder:
  "heap example_world 0 = 42
   \<and> fst (is_serializable counting_value_platform 0 False example_world) = Inr True
   \<and> heap (snd (is_serializable counting_value_platform 0 False example_world)) 0 = 43"
  by (simp add: step_defs platform_defs example_world_def)

text \<open>
  Claim C5, amended. The function itself writes nothing to the value under test: it
  hands the value to \<^verbatim>\<open>cloudpickle.dump\<close> and every other step acts on files and
  descriptors, and the child is another process. So after the call, on every exit path and
  for either setting of the flag, the objects are those from before the call or those the
  encoder left when it ran on them; and a value that its own pickling leaves unchanged is
  unchanged after the call.
\<close>

theorem value_changed_only_by_encoder:
  "(heap (snd (is_serializable pf obj raise_on_error w)) = heap w
    \<or> (\<exists>fs. heap (snd (is_serializable pf obj raise_on_error w))
             = fst (snd (cloudpickle_dump pf fs (heap w) obj))))
   \<and> ((\<forall>fs. fst (snd (cloudpickle_dump pf fs (heap w) obj)) obj = heap w obj) \<longrightarrow>
        heap (snd (is_serializable pf obj raise_on_error w)) obj = heap w obj)"
proof (intro conjI impI)
  show "heap (snd (is_serializable pf obj raise_on_error w)) = heap w
    \<or> (\<exists>fs. heap (snd (is_serializable pf obj raise_on_error w))
             = fst (snd (cloudpickle_dump pf fs (heap w) obj)))"
    by (rule is_serializable_heap)
next
  assume h: "\<forall>fs. fst (snd (cloudpickle_dump pf fs (heap w) obj)) obj = heap w obj"
  from is_serializable_heap [of pf obj raise_on_error w]
  show "heap (snd (is_serializable pf obj raise_on_error w)) obj = heap w obj"
  proof
    assume "heap (snd (is_serializable pf obj raise_on_error w)) = heap w"
    then show ?thesis by simp
  next
    assume "\<exists>fs. heap (snd (is_serializable pf obj raise_on_error w))
        = fst (snd (cloudpickle_dump pf fs (heap w) obj))"
    then obtain fs where "heap (snd (is_serializable pf obj raise_on_error w))
        = fst (snd (cloudpickle_dump pf fs (heap w) obj))" ..
    with h show ?thesis by simp
  qed
qed

text \<open>
  On the example platforms the encoder only reads: the value at address 5 is 42 before and
  after a call that raises.
\<close>

theorem value_changed_only_by_encoder_witness:
  "(\<forall>fs. fst (snd (cloudpickle_dump failing_child_platform fs (heap example_world) 5)) 5
          = heap example_world 5)
   \<and> heap example_world 5 = 42
   \<and> heap (snd (is_serializable failing_child_platform 5 True example_world)) 5 = 42"
proof -
  have h: "\<forall>fs. fst (snd (cloudpickle_dump failing_child_platform fs (heap example_world) 5)) 5
      = heap example_world 5"
    by (simp add: failing_child_platform_def healthy_platform_def)
  have v: "heap example_world 5 = 42" by (simp add: example_world_def)
  from value_changed_only_by_encoder [of failing_child_platform 5 True example_world] h
  have "heap (snd (is_serializable failing_child_platform 5 True example_world)) 5
      = heap example_world 5" by blast
  with h v show ?thesis by simp
qed

subsection \<open>The state handler\<close>

lemma handler_snd:
  "snd (make_return_failed_handler isinstance r tr old new st) =
     (if isinstance new Failed \<or> isinstance new Retrying
      then st(r := insert (task tr) (st r)) else st)"
  by (simp add: make_return_failed_handler_def)

lemma call_for_each_handler:
  "call_for_each (make_return_failed_handler isinstance r) tr ts st =
     (if \<exists>(old, new) \<in> set ts. isinstance new Failed \<or> isinstance new Retrying
      then st(r := insert (task tr) (st r)) else st)"
proof (induction ts arbitrary: st)
  case Nil
  show ?case by simp
next
  case (Cons t ts)
  obtain old new where t: "t = (old, new)" by (cases t)
  show ?case
    by (auto simp: t Cons.IH handler_snd fun_eq_iff)
qed

text \<open>
  Claim C7. The handler returns \<open>new_state\<close> as it is, for any task runner, old state
  and new state. Called for any sequence of transitions of one task, it leaves the set as
  one insertion of the task does, if some new state was failed or retrying, and unchanged
  otherwise; every other set of the store is untouched.
\<close>

theorem handler_returns_new_state:
  "fst (make_return_failed_handler isinstance r tr old new st) = new
   \<and> call_for_each (make_return_failed_handler isinstance r) tr ts st =
       (if \<exists>(old, new) \<in> set ts. isinstance new Failed \<or> isinstance new Retrying
        then st(r := insert (task tr) (st r)) else st)"
  by (simp add: call_for_each_handler) (simp add: make_return_failed_handler_def)

text \<open>
  A task that is retried twice and then fails is in the set once.
\<close>

theorem handler_returns_new_state_witness:
  "fst (make_return_failed_handler example_isinstance 0 \<lparr>task = ''t1''\<rparr> ''Running'' ''Retrying''
          (\<lambda>_. {})) = ''Retrying''
   \<and> call_for_each (make_return_failed_handler example_isinstance 0) \<lparr>task = ''t1''\<rparr>
        [(''Running'', ''Retrying''), (''Retrying'', ''Running''), (''Running'', ''Retrying''),
         (''Retrying'', ''Running''), (''Running'', ''Failed'')] (\<lambda>_. {})
       = (\<lambda>_. {})(0 := {''t1''})
   \<and> snd (make_return_failed_handler example_isinstance 0 \<lparr>task = ''t1''\<rparr> ''Running''
             ''Retrying'' (\<lambda>_. {}))
       = (\<lambda>_. {})(0 := {''t1''})"
  using handler_returns_new_state [of example_isinstance 0 "\<lparr>task = ''t1''\<rparr>" "''Running''"
      "''Retrying''" "\<lambda>_. {}"
      "[(''Running'', ''Retrying''), (''Retrying'', ''Running''), (''Running'', ''Retrying''),
        (''Retrying'', ''Running''), (''Running'', ''Failed'')]"]
  by (simp add: handler_snd)

text \<open>
  Claim C8. The handler inserts the runner's task into the set it was made with when
  the new state is an instance of \<^verbatim>\<open>Failed\<close> or of \<^verbatim>\<open>Retrying\<close>, and leaves the store as
  it is for any other new state; a task that was not in the set is in it afterwards if and
  only if the new state is of one of the two classes.
\<close>

theorem handler_records_iff_tagged:
  "(isinstance new Failed \<or> isinstance new Retrying \<longrightarrow>
      snd (make_return_failed_handler isinstance r tr old new st)
        = st(r := insert (task tr) (st r)))
   \<and> (\<not> (isinstance new Failed \<or> isinstance new Retrying) \<longrightarrow>
      snd (make_return_failed_handler isinstance r tr old new st) = st)
   \<and> (task tr \<notin> st r \<longrightarrow>
      (task tr \<in> snd (make_return_failed_handler isinstance r tr old new st) r
        \<longleftrightarrow> isinstance new Failed \<or> isinstance new Retrying))"
  by (simp add: make_return_failed_handler_def)

text \<open>
  A task whose new state is \<^verbatim>\<open>Failed\<close> is recorded; one whose new state is
  \<^verbatim>\<open>Success\<close> is not.
\<close>

theorem handler_records_iff_tagged_witness:
  "example_isinstance ''Failed'' Failed
   \<and> snd (make_return_failed_handler example_isinstance 0 \<lparr>task = ''t1''\<rparr> ''Running'' ''Failed''
          (\<lambda>_. {})) = (\<lambda>_. {})(0 := {''t1''})
   \<and> \<not> (example_isinstance ''Success'' Failed \<or> example_isinstance ''Success'' Retrying)
   \<and> snd (make_return_failed_handler example_isinstance 0 \<lparr>task = ''t1''\<rparr> ''Running'' ''Success''
          (\<lambda>_. {})) = (\<lambda>_. {})
   \<and> ''t1'' \<notin> (\<lambda>_. {}) (0::nat)
   \<and> ''t1'' \<notin> snd (make_return_failed_handler example_isinstance 0 \<lparr>task = ''t1''\<rparr> ''Running''
          ''Success'' (\<lambda>_. {})) 0"
  using handler_records_iff_tagged [of example_isinstance "''Failed''" 0 "\<lparr>task = ''t1''\<rparr>"
      "''Running''" "\<lambda>_. {}"]
    handler_records_iff_tagged [of example_isinstance "''Success''" 0 "\<lparr>task = ''t1''\<rparr>"
      "''Running''" "\<lambda>_. {}"]
  by simp

subsection \<open>The scope of the flag\<close>

text \<open>
  Claim C9. The block under \<^verbatim>\<open>raise_on_exception\<close> runs with the flag set to
  \<^verbatim>\<open>True\<close>, so that a reader inside the block sees it; when the block is left, with a
  value or with an exception, the flags are those from before the block, whatever the
  block did to them.
\<close>

theorem raise_on_exception_scoped:
  "snd (raise_on_exception block ctx) = ctx
   \<and> fst (raise_on_exception block ctx)
       = fst (block (ctx(''raise_on_exception'' \<mapsto> PyBool True)))
   \<and> raise_on_exception read_flag ctx = (Inr (Some (PyBool True)), ctx)"
  by (simp add: raise_on_exception_def prefect_context_def read_flag_def split: prod.splits)

text \<open>
  A block that clears the flag and then raises: the exception comes out, and the flags
  are as before.
\<close>

theorem raise_on_exception_scoped_witness:
  "raise_on_exception
     (\<lambda>c. (Inl (Exception ''ZeroDivisionError'' ''division by zero'') :: exn + unit,
           c(''raise_on_exception'' \<mapsto> PyBool False)))
     [''raise_on_exception'' \<mapsto> PyBool False, ''loglevel'' \<mapsto> PyStr ''INFO'']
   = (Inl (Exception ''ZeroDivisionError'' ''division by zero''),
      [''raise_on_exception'' \<mapsto> PyBool False, ''loglevel'' \<mapsto> PyStr ''INFO''])"
  using raise_on_exception_scoped
    [of "\<lambda>c. (Inl (Exception ''ZeroDivisionError'' ''division by zero'') :: exn + unit,
           c(''raise_on_exception'' \<mapsto> PyBool False))"
        "[''raise_on_exception'' \<mapsto> PyBool False, ''loglevel'' \<mapsto> PyStr ''INFO'']"]
  by (simp add: prod_eq_iff)

end
